theory Spec2Isabelle
  imports Complex_Main "HOL-Library.Multiset"
begin

section \<open>Data model\<close>

text \<open>
  The repository holds two copies of the roster builder that differ in the fourth unit
  type and its rules: \<^verbatim>\<open>src/unnamed/part_000\<close> (fourth type Champion, capped;
  suffix \<open>_A\<close> below) and \<^verbatim>\<open>src/app.js\<close> (fourth type Elite, weighted; suffix
  \<open>_B\<close>). Functions that are textually the same in both files are modelled once.

  Numbers are JavaScript numbers holding integers (points, ids, counters, the limit);
  they are modelled as unbounded \<open>int\<close>.
\<close>

text \<open>A unit of the catalog (\<^verbatim>\<open>data.json\<close>). The type may be absent: \<open>None\<close>.\<close>

record unit_def =
  uname :: string
  upoints :: int
  utype :: "string option"

record faction =
  fname :: string
  units :: "unit_def list"

text \<open>\<^verbatim>\<open>rosterEntries: [{ id, name, points, type }]\<close>\<close>

record entry =
  eid :: int
  ename :: string
  epoints :: int
  etype :: string

text \<open>
  The module state: the five \<^verbatim>\<open>let\<close> variables, and the text nodes of the page that
  the modelled functions write (\<^verbatim>\<open>elStatusText.textContent\<close>,
  \<^verbatim>\<open>elStatusDot.style.background\<close>, \<^verbatim>\<open>elTotalPoints.textContent\<close>,
  \<^verbatim>\<open>elRosterSummary.textContent\<close>) and the clipboard. \<open>gameData\<close> is \<open>None\<close>
  while it is \<^verbatim>\<open>null\<close>, otherwise the list \<^verbatim>\<open>gameData.factions || []\<close>.
  The HTML of the two list panels is not part of the state.
\<close>

record state =
  gameData :: "faction list option"
  selectedFactionName :: string
  pointsLimit :: int
  rosterEntries :: "entry list"
  nextId :: int
  statusText :: string
  statusDot :: string
  totalPointsText :: string
  rosterSummaryText :: string
  clipboard :: string

definition init_A :: state where
  "init_A = \<lparr> gameData = None, selectedFactionName = [], pointsLimit = 300,
      rosterEntries = [], nextId = 1, statusText = [], statusDot = [],
      totalPointsText = [], rosterSummaryText = [], clipboard = [] \<rparr>"

definition init_B :: state where
  "init_B = \<lparr> gameData = None, selectedFactionName = [], pointsLimit = 200,
      rosterEntries = [], nextId = 1, statusText = [], statusDot = [],
      totalPointsText = [], rosterSummaryText = [], clipboard = [] \<rparr>"

section \<open>Numbers and strings of the language\<close>

text \<open>
  The decimal rendering of an integer, as a template literal or \<^verbatim>\<open>String(n)\<close>
  produces it.
\<close>

definition digitChar :: "nat \<Rightarrow> char" where
  "digitChar d = ''0123456789'' ! (d mod 10)"

fun digits :: "nat \<Rightarrow> string" where
  "digits n = (if n < 10 then [digitChar n] else digits (n div 10) @ [digitChar (n mod 10)])"

declare digits.simps [simp del]

definition toString :: "int \<Rightarrow> string" where
  "toString i = (if i < 0 then CHR ''-'' # digits (nat (- i)) else digits (nat i))"

text \<open>\<^verbatim>\<open>Array.prototype.join\<close> on an array of strings.\<close>

fun join :: "string \<Rightarrow> string list \<Rightarrow> string" where
  "join sep [] = []"
| "join sep [x] = x"
| "join sep (x # y # ys) = x @ sep @ join sep (y # ys)"

text \<open>Characters outside ASCII that the messages use, as their UTF-8 bytes.\<close>

definition emdash :: string where
  "emdash = [CHR 0xE2, CHR 0x80, CHR 0x94]"

definition middot :: string where
  "middot = [CHR 0xC2, CHR 0xB7]"

definition geq_sign :: string where
  "geq_sign = [CHR 0xE2, CHR 0x89, CHR 0xA5]"

section \<open>Queries\<close>

text \<open>\<^verbatim>\<open>getRosterTotal\<close>: the loop \<^verbatim>\<open>for (const it of rosterEntries) sum += it.points\<close>.\<close>

fun sumPoints :: "entry list \<Rightarrow> int \<Rightarrow> int" where
  "sumPoints [] acc = acc"
| "sumPoints (it # rest) acc = sumPoints rest (acc + epoints it)"

definition getRosterTotal :: "state \<Rightarrow> int" where
  "getRosterTotal s = sumPoints (rosterEntries s) 0"

text \<open>\<^verbatim>\<open>computeForceComp\<close> of part_000: four counters, unknown types fall through.\<close>

record comp_A =
  leaders :: int
  core :: int
  special :: int
  champions :: int
  requiredCore :: int

fun countTypes_A :: "entry list \<Rightarrow> int \<Rightarrow> int \<Rightarrow> int \<Rightarrow> int \<Rightarrow> int \<times> int \<times> int \<times> int" where
  "countTypes_A [] l c sp ch = (l, c, sp, ch)"
| "countTypes_A (it # rest) l c sp ch =
     (let t = etype it in
      if t = ''Leader'' then countTypes_A rest (l + 1) c sp ch
      else if t = ''Core'' then countTypes_A rest l (c + 1) sp ch
      else if t = ''Special'' then countTypes_A rest l c (sp + 1) ch
      else if t = ''Champion'' then countTypes_A rest l c sp (ch + 1)
      else countTypes_A rest l c sp ch)"

definition computeForceComp_A :: "state \<Rightarrow> comp_A" where
  "computeForceComp_A s =
     (case countTypes_A (rosterEntries s) 0 0 0 0 of
        (l, c, sp, ch) \<Rightarrow>
          \<lparr> leaders = l, core = c, special = sp, champions = ch, requiredCore = sp \<rparr>)"

text \<open>\<^verbatim>\<open>computeForceComp\<close> of app.js: the fourth counter is \<^verbatim>\<open>elite\<close>.\<close>

record comp_B =
  leaders_B :: int
  core_B :: int
  special_B :: int
  elite :: int
  requiredCore_B :: int

fun countTypes_B :: "entry list \<Rightarrow> int \<Rightarrow> int \<Rightarrow> int \<Rightarrow> int \<Rightarrow> int \<times> int \<times> int \<times> int" where
  "countTypes_B [] l c sp el = (l, c, sp, el)"
| "countTypes_B (it # rest) l c sp el =
     (let t = etype it in
      if t = ''Leader'' then countTypes_B rest (l + 1) c sp el
      else if t = ''Core'' then countTypes_B rest l (c + 1) sp el
      else if t = ''Special'' then countTypes_B rest l c (sp + 1) el
      else if t = ''Elite'' then countTypes_B rest l c sp (el + 1)
      else countTypes_B rest l c sp el)"

definition computeForceComp_B :: "state \<Rightarrow> comp_B" where
  "computeForceComp_B s =
     (case countTypes_B (rosterEntries s) 0 0 0 0 of
        (l, c, sp, el) \<Rightarrow>
          \<lparr> leaders_B = l, core_B = c, special_B = sp, elite = el,
            requiredCore_B = sp + 2 * el \<rparr>)"

definition getChampionCap :: "int \<Rightarrow> int" where
  "getChampionCap limit = limit div 250"

text \<open>The number of entries of a roster that carry a given type.\<close>

definition countOf :: "string \<Rightarrow> entry list \<Rightarrow> int" where
  "countOf t es = int (length (filter (\<lambda>e. etype e = t) es))"

section \<open>Status\<close>

text \<open>\<^verbatim>\<open>setStatus(message, type)\<close>: the text, and the colour of the dot by type.\<close>

definition setStatus :: "string \<Rightarrow> string \<Rightarrow> state \<Rightarrow> state" where
  "setStatus message type s =
     s\<lparr> statusText := message,
        statusDot := (if type = ''danger'' then ''var(--danger)''
                      else if type = ''warn'' then ''var(--warn)''
                      else ''var(--ok)'') \<rparr>"

text \<open>The composition problems that \<^verbatim>\<open>renderRoster\<close> collects, in the order pushed.\<close>

definition compProblems_A :: "state \<Rightarrow> string list" where
  "compProblems_A s =
     (let comp = computeForceComp_A s;
          maxChampions = getChampionCap (pointsLimit s)
      in (if leaders comp \<noteq> 1
          then [''Leaders: need exactly 1 (you have '' @ toString (leaders comp) @ '').'']
          else [])
       @ (if core comp < requiredCore comp
          then [''Core: need at least '' @ toString (requiredCore comp)
                @ '' (you have '' @ toString (core comp) @ '').'']
          else [])
       @ (if champions comp > maxChampions
          then [''Champions: max '' @ toString maxChampions @ '' at ''
                @ toString (pointsLimit s) @ '' pts (you have ''
                @ toString (champions comp) @ '').'']
          else []))"

definition compProblems_B :: "state \<Rightarrow> string list" where
  "compProblems_B s =
     (let comp = computeForceComp_B s
      in (if leaders_B comp \<noteq> 1
          then [''Leaders: need exactly 1 (you have '' @ toString (leaders_B comp) @ '').'']
          else [])
       @ (if core_B comp < requiredCore_B comp
          then [''Core: need at least '' @ toString (requiredCore_B comp)
                @ '' (you have '' @ toString (core_B comp) @ '').'']
          else []))"

text \<open>
  The classification at the end of \<^verbatim>\<open>renderRoster\<close>: the message and the type that
  are handed to \<^verbatim>\<open>setStatus\<close>, from the total (\<open>tot\<close>), the limit and the problems.
\<close>

definition renderRoster_status_A :: "int \<Rightarrow> int \<Rightarrow> string list \<Rightarrow> string \<times> string" where
  "renderRoster_status_A tot limit compProblems =
     (let over = max 0 (tot - limit);
          remaining = max 0 (limit - tot);
          pointsOk = (tot \<le> limit);
          compOk = (length compProblems = 0)
      in if tot = 0 then (''Ready.'', ''ok'')
         else if \<not> pointsOk \<and> \<not> compOk
           then (''Over by '' @ toString over @ '' pts. '' @ join '' '' compProblems, ''danger'')
         else if \<not> pointsOk
           then (''Over by '' @ toString over @ '' pts.'', ''danger'')
         else if \<not> compOk
           then (toString remaining @ '' pts remaining. '' @ join '' '' compProblems, ''warn'')
         else if tot = limit
           then (''Legal: exact points and legal force composition.'', ''ok'')
         else (toString remaining @ '' pts remaining. Legal so far.'', ''ok''))"

definition renderRoster_status_B :: "int \<Rightarrow> int \<Rightarrow> string list \<Rightarrow> string \<times> string" where
  "renderRoster_status_B tot limit compProblems =
     (let over = max 0 (tot - limit);
          remaining = max 0 (limit - tot);
          pointsOk = (tot \<le> limit);
          compOk = (length compProblems = 0)
      in if tot = 0 then (''Ready.'', ''ok'')
         else if \<not> pointsOk \<and> \<not> compOk
           then (''Over by '' @ toString over @ '' pts. '' @ join '' '' compProblems, ''danger'')
         else if \<not> pointsOk
           then (''Over by '' @ toString over @ '' pts.'', ''danger'')
         else if \<not> compOk
           then (toString remaining @ '' pts remaining. '' @ join '' '' compProblems, ''warn'')
         else if tot = limit
           then (''Legal: exact points and legal force composition.'', ''ok'')
         else (toString remaining @ '' pts remaining. Force composition legal so far.'', ''ok''))"

text \<open>
  \<^verbatim>\<open>renderRoster\<close>: the tot and the summary line, then the status. (The HTML of the
  roster panel is not modelled.)
\<close>

definition renderRoster_A :: "state \<Rightarrow> state" where
  "renderRoster_A s =
     (let total = getRosterTotal s;
          s1 = s\<lparr> totalPointsText := toString total,
                  rosterSummaryText := toString total @ '' / '' @ toString (pointsLimit s) \<rparr>
      in case renderRoster_status_A total (pointsLimit s) (compProblems_A s) of
           (message, type) \<Rightarrow> setStatus message type s1)"

definition renderRoster_B :: "state \<Rightarrow> state" where
  "renderRoster_B s =
     (let total = getRosterTotal s;
          s1 = s\<lparr> totalPointsText := toString total,
                  rosterSummaryText := toString total @ '' / '' @ toString (pointsLimit s) \<rparr>
      in case renderRoster_status_B total (pointsLimit s) (compProblems_B s) of
           (message, type) \<Rightarrow> setStatus message type s1)"

section \<open>Roster actions\<close>

definition getSelectedFaction :: "state \<Rightarrow> faction option" where
  "getSelectedFaction s =
     (case gameData s of
        None \<Rightarrow> None
      | Some factions \<Rightarrow> find (\<lambda>f. fname f = selectedFactionName s) factions)"

definition findUnitInSelectedFaction :: "string \<Rightarrow> state \<Rightarrow> unit_def option" where
  "findUnitInSelectedFaction unitName s =
     (case getSelectedFaction s of
        None \<Rightarrow> None
      | Some f \<Rightarrow> find (\<lambda>u. uname u = unitName) (units f))"

text \<open>\<^verbatim>\<open>unit.type || "Core"\<close>: an absent or empty type is falsy.\<close>

definition typeOrCore :: "string option \<Rightarrow> string" where
  "typeOrCore t = (case t of None \<Rightarrow> ''Core'' | Some v \<Rightarrow> if v = [] then ''Core'' else v)"

text \<open>\<^verbatim>\<open>rosterEntries.push({ id: nextId++, ... })\<close>\<close>

definition pushEntry :: "unit_def \<Rightarrow> state \<Rightarrow> state" where
  "pushEntry u s =
     s\<lparr> rosterEntries := rosterEntries s @
           [\<lparr> eid = nextId s, ename = uname u, epoints = upoints u, etype = typeOrCore (utype u) \<rparr>],
        nextId := nextId s + 1 \<rparr>"

text \<open>
  \<^verbatim>\<open>addUnit\<close> of part_000, with the Champion cap at add time. \<^verbatim>\<open>renderUnits\<close>, which
  both variants call after a change, writes the unit panel only.
\<close>

definition addUnit_A :: "string \<Rightarrow> state \<Rightarrow> state" where
  "addUnit_A unitName s =
     (case findUnitInSelectedFaction unitName s of
        None \<Rightarrow> s
      | Some u \<Rightarrow>
          (let maxChampions = getChampionCap (pointsLimit s);
               comp = computeForceComp_A s
           in if utype u = Some ''Champion'' \<and> champions comp \<ge> maxChampions
              then setStatus (''Champion cap reached ('' @ toString maxChampions @ '' max at ''
                              @ toString (pointsLimit s) @ '' pts).'') ''warn'' s
              else renderRoster_A (pushEntry u s)))"

definition addUnit_B :: "string \<Rightarrow> state \<Rightarrow> state" where
  "addUnit_B unitName s =
     (case findUnitInSelectedFaction unitName s of
        None \<Rightarrow> s
      | Some u \<Rightarrow> renderRoster_B (pushEntry u s))"

definition deleteEntry_A :: "int \<Rightarrow> state \<Rightarrow> state" where
  "deleteEntry_A i s = renderRoster_A (s\<lparr> rosterEntries := filter (\<lambda>e. eid e \<noteq> i) (rosterEntries s) \<rparr>)"

definition deleteEntry_B :: "int \<Rightarrow> state \<Rightarrow> state" where
  "deleteEntry_B i s = renderRoster_B (s\<lparr> rosterEntries := filter (\<lambda>e. eid e \<noteq> i) (rosterEntries s) \<rparr>)"

definition clearRoster :: "state \<Rightarrow> state" where
  "clearRoster s = s\<lparr> rosterEntries := [], nextId := 1 \<rparr>"

text \<open>Sequences of the three roster actions.\<close>

datatype action = AddUnit string | DeleteEntry int | ClearRoster

fun step_A :: "action \<Rightarrow> state \<Rightarrow> state" where
  "step_A (AddUnit n) s = addUnit_A n s"
| "step_A (DeleteEntry i) s = deleteEntry_A i s"
| "step_A ClearRoster s = clearRoster s"

fun step_B :: "action \<Rightarrow> state \<Rightarrow> state" where
  "step_B (AddUnit n) s = addUnit_B n s"
| "step_B (DeleteEntry i) s = deleteEntry_B i s"
| "step_B ClearRoster s = clearRoster s"

fun run_A :: "action list \<Rightarrow> state \<Rightarrow> state" where
  "run_A [] s = s"
| "run_A (a # as) s = run_A as (step_A a s)"

fun run_B :: "action list \<Rightarrow> state \<Rightarrow> state" where
  "run_B [] s = s"
| "run_B (a # as) s = run_B as (step_B a s)"

section \<open>Display order and export\<close>

definition TYPE_ORDER_A :: "string list" where
  "TYPE_ORDER_A = [''Leader'', ''Core'', ''Special'', ''Champion'']"

definition TYPE_ORDER_B :: "string list" where
  "TYPE_ORDER_B = [''Leader'', ''Core'', ''Special'', ''Elite'']"

text \<open>\<^verbatim>\<open>new Map(TYPE_ORDER.map((t, i) => [t, i]))\<close>\<close>

definition TYPE_ORDER_MAP_A :: "string \<rightharpoonup> int" where
  "TYPE_ORDER_MAP_A = map_of (zip TYPE_ORDER_A (map int [0 ..< length TYPE_ORDER_A]))"

definition TYPE_ORDER_MAP_B :: "string \<rightharpoonup> int" where
  "TYPE_ORDER_MAP_B = map_of (zip TYPE_ORDER_B (map int [0 ..< length TYPE_ORDER_B]))"

text \<open>\<^verbatim>\<open>TYPE_ORDER_MAP.get(t) ?? 999\<close>\<close>

definition typeRank_A :: "string \<Rightarrow> int" where
  "typeRank_A t = (case TYPE_ORDER_MAP_A t of None \<Rightarrow> 999 | Some i \<Rightarrow> i)"

definition typeRank_B :: "string \<Rightarrow> int" where
  "typeRank_B t = (case TYPE_ORDER_MAP_B t of None \<Rightarrow> 999 | Some i \<Rightarrow> i)"

text \<open>The comparator handed to \<^verbatim>\<open>sort\<close>.\<close>

definition compareEntries_A :: "entry \<Rightarrow> entry \<Rightarrow> int" where
  "compareEntries_A a b =
     (let ta = typeRank_A (etype a); tb = typeRank_A (etype b)
      in if ta \<noteq> tb then ta - tb else eid a - eid b)"

definition compareEntries_B :: "entry \<Rightarrow> entry \<Rightarrow> int" where
  "compareEntries_B a b =
     (let ta = typeRank_B (etype a); tb = typeRank_B (etype b)
      in if ta \<noteq> tb then ta - tb else eid a - eid b)"

text \<open>
  \<^verbatim>\<open>Array.prototype.sort(comparefn)\<close> is the language's stable sort: an element goes
  before another when the comparator is negative, and elements that compare equal keep
  their order. It is modelled by a stable insertion sort on the comparator.
\<close>

fun insertSorted :: "('a \<Rightarrow> 'a \<Rightarrow> int) \<Rightarrow> 'a \<Rightarrow> 'a list \<Rightarrow> 'a list" where
  "insertSorted cmp x [] = [x]"
| "insertSorted cmp x (y # ys) =
     (if cmp x y \<le> 0 then x # y # ys else y # insertSorted cmp x ys)"

fun sortWith :: "('a \<Rightarrow> 'a \<Rightarrow> int) \<Rightarrow> 'a list \<Rightarrow> 'a list" where
  "sortWith cmp [] = []"
| "sortWith cmp (x # xs) = insertSorted cmp x (sortWith cmp xs)"

definition ordered_A :: "state \<Rightarrow> entry list" where
  "ordered_A s = sortWith compareEntries_A (rosterEntries s)"

definition ordered_B :: "state \<Rightarrow> entry list" where
  "ordered_B s = sortWith compareEntries_B (rosterEntries s)"

text \<open>The line of one entry: \<^verbatim>\<open>`${idx + 1}. [${it.type}] ${it.name} <em dash> ${it.points}`\<close>.\<close>

definition entryLine :: "nat \<Rightarrow> entry \<Rightarrow> string" where
  "entryLine idx it =
     toString (int idx + 1) @ ''. ['' @ etype it @ ''] '' @ ename it @ '' '' @ emdash @ '' ''
       @ toString (epoints it)"

text \<open>\<^verbatim>\<open>ordered.forEach((it, idx) => lines.push(...))\<close>\<close>

fun pushEntryLines :: "entry list \<Rightarrow> nat \<Rightarrow> string list \<Rightarrow> string list" where
  "pushEntryLines [] idx lines = lines"
| "pushEntryLines (it # rest) idx lines = pushEntryLines rest (idx + 1) (lines @ [entryLine idx it])"

definition headerLines_A :: "state \<Rightarrow> string list" where
  "headerLines_A s =
     (let factionName = (if selectedFactionName s = [] then ''Unknown faction''
                         else selectedFactionName s);
          total = getRosterTotal s;
          comp = computeForceComp_A s;
          maxChampions = getChampionCap (pointsLimit s)
      in [''Fall: A Game of Endings '' @ emdash @ '' Roster'',
          ''Faction: '' @ factionName,
          ''Limit: '' @ toString (pointsLimit s),
          ''Total: '' @ toString total,
          [],
          ''Force Comp: Leaders '' @ toString (leaders comp) @ ''/1 '' @ middot
            @ '' Core '' @ toString (core comp) @ '' (need '' @ geq_sign @ '' ''
            @ toString (requiredCore comp) @ '') '' @ middot
            @ '' Special '' @ toString (special comp) @ '' '' @ middot
            @ '' Champions '' @ toString (champions comp) @ ''/'' @ toString maxChampions,
          []])"

definition headerLines_B :: "state \<Rightarrow> string list" where
  "headerLines_B s =
     (let factionName = (if selectedFactionName s = [] then ''Unknown faction''
                         else selectedFactionName s);
          total = getRosterTotal s;
          comp = computeForceComp_B s
      in [''Fall: A Game of Endings '' @ emdash @ '' Roster'',
          ''Faction: '' @ factionName,
          ''Limit: '' @ toString (pointsLimit s),
          ''Total: '' @ toString total,
          [],
          ''Force Comp: Leaders '' @ toString (leaders_B comp) @ ''/1 '' @ middot
            @ '' Core '' @ toString (core_B comp) @ ''/'' @ toString (requiredCore_B comp)
            @ '' (Special '' @ toString (special_B comp) @ '', Elite ''
            @ toString (elite comp) @ '')'',
          []])"

definition rosterLines_A :: "state \<Rightarrow> string list" where
  "rosterLines_A s =
     (let lines = headerLines_A s; ordered = ordered_A s
      in if length ordered = 0 then lines @ [''(No units)'']
         else pushEntryLines ordered 0 lines)"

definition rosterLines_B :: "state \<Rightarrow> string list" where
  "rosterLines_B s =
     (let lines = headerLines_B s; ordered = ordered_B s
      in if length ordered = 0 then lines @ [''(No units)'']
         else pushEntryLines ordered 0 lines)"

text \<open>
  \<^verbatim>\<open>copyRosterToClipboard\<close>: the text is the lines joined by a line feed; the flag says
  whether \<^verbatim>\<open>navigator.clipboard.writeText\<close> succeeded or the fallback copied.
\<close>

definition copyRosterToClipboard_A :: "bool \<Rightarrow> state \<Rightarrow> state" where
  "copyRosterToClipboard_A apiOk s =
     (let text = join [CHR 0x0A] (rosterLines_A s);
          s1 = s\<lparr> clipboard := text \<rparr>
      in if apiOk then setStatus ''Copied roster to clipboard.'' ''ok'' s1
         else setStatus ''Copied roster to clipboard (fallback).'' ''ok'' s1)"

definition copyRosterToClipboard_B :: "bool \<Rightarrow> state \<Rightarrow> state" where
  "copyRosterToClipboard_B apiOk s =
     (let text = join [CHR 0x0A] (rosterLines_B s);
          s1 = s\<lparr> clipboard := text \<rparr>
      in if apiOk then setStatus ''Copied roster to clipboard.'' ''ok'' s1
         else setStatus ''Copied roster to clipboard (fallback).'' ''ok'' s1)"

section \<open>An example catalog\<close>

text \<open>
  A catalog with one faction, whose units cover a known type, a type outside the known
  set, an absent type, and the fourth type of each variant; and the state of each variant
  once this catalog is loaded and the faction selected.
\<close>

definition horde :: faction where
  "horde = \<lparr> fname = ''Horde'', units =
      [\<lparr> uname = ''Warlord'', upoints = 60, utype = Some ''Leader'' \<rparr>,
       \<lparr> uname = ''Ogre'', upoints = 50, utype = Some ''Monster'' \<rparr>,
       \<lparr> uname = ''Rabble'', upoints = 20, utype = None \<rparr>,
       \<lparr> uname = ''Hero'', upoints = 80, utype = Some ''Champion'' \<rparr>,
       \<lparr> uname = ''Guard'', upoints = 40, utype = Some ''Elite'' \<rparr>] \<rparr>"

definition loaded_A :: state where
  "loaded_A = init_A \<lparr> gameData := Some [horde], selectedFactionName := ''Horde'' \<rparr>"

definition loaded_B :: state where
  "loaded_B = init_B \<lparr> gameData := Some [horde], selectedFactionName := ''Horde'' \<rparr>"

section \<open>Composition counts\<close>

lemma countOf_Nil: "countOf t [] = 0"
  by (simp add: countOf_def)

lemma countOf_Cons: "countOf t (e # es) = (if etype e = t then 1 else 0) + countOf t es"
  by (simp add: countOf_def)

lemma countTypes_A_eq:
  "countTypes_A es l c sp ch =
     (l + countOf ''Leader'' es, c + countOf ''Core'' es,
      sp + countOf ''Special'' es, ch + countOf ''Champion'' es)"
  by (induction es arbitrary: l c sp ch) (simp_all add: countOf_Nil countOf_Cons Let_def)

lemma countTypes_B_eq:
  "countTypes_B es l c sp el =
     (l + countOf ''Leader'' es, c + countOf ''Core'' es,
      sp + countOf ''Special'' es, el + countOf ''Elite'' es)"
  by (induction es arbitrary: l c sp el) (simp_all add: countOf_Nil countOf_Cons Let_def)

lemma comp_A_fields:
  "leaders (computeForceComp_A s) = countOf ''Leader'' (rosterEntries s)"
  "core (computeForceComp_A s) = countOf ''Core'' (rosterEntries s)"
  "special (computeForceComp_A s) = countOf ''Special'' (rosterEntries s)"
  "champions (computeForceComp_A s) = countOf ''Champion'' (rosterEntries s)"
  "requiredCore (computeForceComp_A s) = countOf ''Special'' (rosterEntries s)"
  by (simp_all add: computeForceComp_A_def countTypes_A_eq)

lemma comp_B_fields:
  "leaders_B (computeForceComp_B s) = countOf ''Leader'' (rosterEntries s)"
  "core_B (computeForceComp_B s) = countOf ''Core'' (rosterEntries s)"
  "special_B (computeForceComp_B s) = countOf ''Special'' (rosterEntries s)"
  "elite (computeForceComp_B s) = countOf ''Elite'' (rosterEntries s)"
  "requiredCore_B (computeForceComp_B s) =
     countOf ''Special'' (rosterEntries s) + 2 * countOf ''Elite'' (rosterEntries s)"
  by (simp_all add: computeForceComp_B_def countTypes_B_eq)

text \<open>
  C1. \<^verbatim>\<open>computeForceComp\<close> returns \<^verbatim>\<open>requiredCore\<close> by the rule of its variant: in
  variant A it is the number of Special entries, whatever the number of Champions; in
  variant B it is the number of Special entries plus twice the number of Elite entries.
\<close>

theorem requiredCore_by_variant:
  "requiredCore (computeForceComp_A s) = countOf ''Special'' (rosterEntries s)
   \<and> requiredCore (computeForceComp_A (s\<lparr>rosterEntries := rosterEntries s @ [e\<lparr>etype := ''Champion''\<rparr>]\<rparr>))
       = requiredCore (computeForceComp_A s)
   \<and> requiredCore_B (computeForceComp_B s)
       = countOf ''Special'' (rosterEntries s) + 2 * countOf ''Elite'' (rosterEntries s)"
  by (simp add: comp_A_fields comp_B_fields countOf_def)

text \<open>
  C4. The claim says that the per-type counts of \<^verbatim>\<open>computeForceComp\<close> sum to the
  number of entries for every roster, also one with entries of an unknown type. The loop
  skips unknown types, so the sum falls short: after adding the unit Ogre, of type
  Monster, the roster has one entry and the four counts sum to 0.
\<close>

theorem counts_sum_counterexample:
  "leaders (computeForceComp_A (run_A [AddUnit ''Ogre''] loaded_A))
     + core (computeForceComp_A (run_A [AddUnit ''Ogre''] loaded_A))
     + special (computeForceComp_A (run_A [AddUnit ''Ogre''] loaded_A))
     + champions (computeForceComp_A (run_A [AddUnit ''Ogre''] loaded_A))
   \<noteq> int (length (rosterEntries (run_A [AddUnit ''Ogre''] loaded_A)))"
  by code_simp

lemma known_count_A:
  "countOf ''Leader'' es + countOf ''Core'' es + countOf ''Special'' es + countOf ''Champion'' es
     = int (length (filter (\<lambda>e. etype e \<in> set TYPE_ORDER_A) es))"
  by (induction es) (auto simp: countOf_Nil countOf_Cons TYPE_ORDER_A_def)

lemma known_count_B:
  "countOf ''Leader'' es + countOf ''Core'' es + countOf ''Special'' es + countOf ''Elite'' es
     = int (length (filter (\<lambda>e. etype e \<in> set TYPE_ORDER_B) es))"
  by (induction es) (auto simp: countOf_Nil countOf_Cons TYPE_ORDER_B_def)

lemma countOf_nonneg: "0 \<le> countOf t es"
  by (simp add: countOf_def)

text \<open>
  C4, amended. For every roster the four counts are non-negative and their sum is the
  number of entries whose type is one of the four known types of the variant.
\<close>

theorem counts_sum_to_known_entries:
  "0 \<le> leaders (computeForceComp_A s) \<and> 0 \<le> core (computeForceComp_A s)
   \<and> 0 \<le> special (computeForceComp_A s) \<and> 0 \<le> champions (computeForceComp_A s)
   \<and> leaders (computeForceComp_A s) + core (computeForceComp_A s)
       + special (computeForceComp_A s) + champions (computeForceComp_A s)
     = int (length (filter (\<lambda>e. etype e \<in> set TYPE_ORDER_A) (rosterEntries s)))
   \<and> 0 \<le> leaders_B (computeForceComp_B s) \<and> 0 \<le> core_B (computeForceComp_B s)
   \<and> 0 \<le> special_B (computeForceComp_B s) \<and> 0 \<le> elite (computeForceComp_B s)
   \<and> leaders_B (computeForceComp_B s) + core_B (computeForceComp_B s)
       + special_B (computeForceComp_B s) + elite (computeForceComp_B s)
     = int (length (filter (\<lambda>e. etype e \<in> set TYPE_ORDER_B) (rosterEntries s)))"
  by (simp add: comp_A_fields comp_B_fields countOf_nonneg known_count_A known_count_B)

section \<open>Total points\<close>

lemma sumPoints_eq: "sumPoints es acc = acc + sum_list (map epoints es)"
  by (induction es arbitrary: acc) simp_all

lemma getRosterTotal_eq: "getRosterTotal s = sum_list (map epoints (rosterEntries s))"
  by (simp add: getRosterTotal_def sumPoints_eq)

text \<open>
  C6. After every sequence of \<^verbatim>\<open>addUnit\<close>, \<^verbatim>\<open>deleteEntry\<close> and \<^verbatim>\<open>clearRoster\<close>,
  from any state, \<^verbatim>\<open>getRosterTotal\<close> is the sum of the points of the entries then in
  the roster; it is 0 on the empty roster.
\<close>

theorem total_is_sum_of_present_points:
  "getRosterTotal (run_A acts s) = (\<Sum>e\<leftarrow>rosterEntries (run_A acts s). epoints e)
   \<and> getRosterTotal (run_B acts s) = (\<Sum>e\<leftarrow>rosterEntries (run_B acts s). epoints e)
   \<and> getRosterTotal (s\<lparr>rosterEntries := []\<rparr>) = 0"
  by (simp add: getRosterTotal_eq)

section \<open>Rendering and deletion\<close>

lemma setStatus_fields:
  "rosterEntries (setStatus m t s) = rosterEntries s"
  "nextId (setStatus m t s) = nextId s"
  "pointsLimit (setStatus m t s) = pointsLimit s"
  "gameData (setStatus m t s) = gameData s"
  "selectedFactionName (setStatus m t s) = selectedFactionName s"
  "statusText (setStatus m t s) = m"
  by (simp_all add: setStatus_def)

lemma renderRoster_A_fields:
  "rosterEntries (renderRoster_A s) = rosterEntries s"
  "nextId (renderRoster_A s) = nextId s"
  "pointsLimit (renderRoster_A s) = pointsLimit s"
  "gameData (renderRoster_A s) = gameData s"
  "selectedFactionName (renderRoster_A s) = selectedFactionName s"
  by (simp_all add: renderRoster_A_def Let_def setStatus_fields split: prod.splits)

lemma renderRoster_B_fields:
  "rosterEntries (renderRoster_B s) = rosterEntries s"
  "nextId (renderRoster_B s) = nextId s"
  "pointsLimit (renderRoster_B s) = pointsLimit s"
  "gameData (renderRoster_B s) = gameData s"
  "selectedFactionName (renderRoster_B s) = selectedFactionName s"
  by (simp_all add: renderRoster_B_def Let_def setStatus_fields split: prod.splits)

text \<open>What \<^verbatim>\<open>renderRoster\<close> writes depends on the roster and the limit only.\<close>

lemma renderRoster_A_cong:
  "rosterEntries s = rosterEntries s' \<Longrightarrow> pointsLimit s = pointsLimit s' \<Longrightarrow>
   renderRoster_A s = s\<lparr> totalPointsText := totalPointsText (renderRoster_A s'),
        rosterSummaryText := rosterSummaryText (renderRoster_A s'),
        statusText := statusText (renderRoster_A s'),
        statusDot := statusDot (renderRoster_A s') \<rparr>"
  by (simp add: renderRoster_A_def Let_def setStatus_def getRosterTotal_def compProblems_A_def
        computeForceComp_A_def split: prod.splits)

lemma renderRoster_B_cong:
  "rosterEntries s = rosterEntries s' \<Longrightarrow> pointsLimit s = pointsLimit s' \<Longrightarrow>
   renderRoster_B s = s\<lparr> totalPointsText := totalPointsText (renderRoster_B s'),
        rosterSummaryText := rosterSummaryText (renderRoster_B s'),
        statusText := statusText (renderRoster_B s'),
        statusDot := statusDot (renderRoster_B s') \<rparr>"
  by (simp add: renderRoster_B_def Let_def setStatus_def getRosterTotal_def compProblems_B_def
        computeForceComp_B_def split: prod.splits)

lemma deleteEntry_A_twice: "deleteEntry_A i (deleteEntry_A i s) = deleteEntry_A i s"
proof -
  let ?s1 = "s\<lparr> rosterEntries := filter (\<lambda>e. eid e \<noteq> i) (rosterEntries s) \<rparr>"
  let ?r = "renderRoster_A ?s1"
  let ?s2 = "?r\<lparr> rosterEntries := filter (\<lambda>e. eid e \<noteq> i) (rosterEntries ?r) \<rparr>"
  have same: "?s2 = ?r"
    by (simp add: renderRoster_A_fields)
  have "renderRoster_A ?r = ?r"
    using renderRoster_A_cong [of ?r ?s1] by (simp add: renderRoster_A_fields)
  with same show ?thesis
    by (simp add: deleteEntry_A_def)
qed

lemma deleteEntry_B_twice: "deleteEntry_B i (deleteEntry_B i s) = deleteEntry_B i s"
proof -
  let ?s1 = "s\<lparr> rosterEntries := filter (\<lambda>e. eid e \<noteq> i) (rosterEntries s) \<rparr>"
  let ?r = "renderRoster_B ?s1"
  let ?s2 = "?r\<lparr> rosterEntries := filter (\<lambda>e. eid e \<noteq> i) (rosterEntries ?r) \<rparr>"
  have same: "?s2 = ?r"
    by (simp add: renderRoster_B_fields)
  have "renderRoster_B ?r = ?r"
    using renderRoster_B_cong [of ?r ?s1] by (simp add: renderRoster_B_fields)
  with same show ?thesis
    by (simp add: deleteEntry_B_def)
qed

lemma filter_absent: "i \<notin> eid ` set es \<Longrightarrow> filter (\<lambda>e. eid e \<noteq> i) es = es"
  by (induction es) auto

text \<open>
  C8. \<^verbatim>\<open>deleteEntry\<close> is idempotent: deleting an id a second time leaves the whole
  state as the first deletion left it; and deleting an id that no entry carries leaves the
  roster and the id counter as they were.
\<close>

theorem deleteEntry_idempotent:
  "deleteEntry_A i (deleteEntry_A i s) = deleteEntry_A i s
   \<and> deleteEntry_B i (deleteEntry_B i s) = deleteEntry_B i s
   \<and> (i \<notin> eid ` set (rosterEntries s) \<longrightarrow>
        rosterEntries (deleteEntry_A i s) = rosterEntries s
        \<and> nextId (deleteEntry_A i s) = nextId s
        \<and> rosterEntries (deleteEntry_B i s) = rosterEntries s
        \<and> nextId (deleteEntry_B i s) = nextId s)"
proof -
  have "i \<notin> eid ` set (rosterEntries s) \<longrightarrow>
        rosterEntries (deleteEntry_A i s) = rosterEntries s
        \<and> nextId (deleteEntry_A i s) = nextId s
        \<and> rosterEntries (deleteEntry_B i s) = rosterEntries s
        \<and> nextId (deleteEntry_B i s) = nextId s"
    by (simp add: deleteEntry_A_def deleteEntry_B_def renderRoster_A_fields
          renderRoster_B_fields filter_absent)
  with deleteEntry_A_twice [of i s] deleteEntry_B_twice [of i s] show ?thesis
    by blast
qed

theorem deleteEntry_idempotent_witness:
  "7 \<notin> eid ` set (rosterEntries (run_A [AddUnit ''Warlord'', AddUnit ''Rabble''] loaded_A))
   \<and> rosterEntries (deleteEntry_A 7 (run_A [AddUnit ''Warlord'', AddUnit ''Rabble''] loaded_A))
       = [\<lparr> eid = 1, ename = ''Warlord'', epoints = 60, etype = ''Leader'' \<rparr>,
          \<lparr> eid = 2, ename = ''Rabble'', epoints = 20, etype = ''Core'' \<rparr>]
   \<and> rosterEntries (deleteEntry_A 1 (deleteEntry_A 1
         (run_A [AddUnit ''Warlord'', AddUnit ''Rabble''] loaded_A)))
       = [\<lparr> eid = 2, ename = ''Rabble'', epoints = 20, etype = ''Core'' \<rparr>]"
proof -
  let ?s = "run_A [AddUnit ''Warlord'', AddUnit ''Rabble''] loaded_A"
  have r: "rosterEntries ?s
       = [\<lparr> eid = 1, ename = ''Warlord'', epoints = 60, etype = ''Leader'' \<rparr>,
          \<lparr> eid = 2, ename = ''Rabble'', epoints = 20, etype = ''Core'' \<rparr>]"
    by code_simp
  have d: "rosterEntries (deleteEntry_A 1 ?s) = [\<lparr> eid = 2, ename = ''Rabble'', epoints = 20, etype = ''Core'' \<rparr>]"
    by code_simp
  have a: "7 \<notin> eid ` set (rosterEntries ?s)"
    unfolding r by simp
  from deleteEntry_idempotent [of 7 ?s] a
  have once: "rosterEntries (deleteEntry_A 7 ?s) = rosterEntries ?s"
    by blast
  from deleteEntry_idempotent [of 1 ?s]
  have twice: "deleteEntry_A 1 (deleteEntry_A 1 ?s) = deleteEntry_A 1 ?s"
    by blast
  show ?thesis
    unfolding once twice d r by simp
qed

section \<open>Adding units\<close>

lemma getChampionCap_floor: "getChampionCap limit = \<lfloor>real_of_int limit / 250\<rfloor>"
proof -
  have "\<lfloor>real_of_int limit / real_of_int 250\<rfloor> = limit div 250"
    by (rule floor_divide_of_int_eq)
  then show ?thesis
    by (simp add: getChampionCap_def)
qed

text \<open>
  C5. In variant A, when the unit found is a Champion and the roster already holds at
  least \<open>\<lfloor>pointsLimit / 250\<rfloor>\<close> Champions (a cap of 0 included), \<^verbatim>\<open>addUnit\<close> creates
  no entry: the roster and the id counter are unchanged, nothing but the status changes,
  and the status is the cap message with the warning colour. The function returns a
  state; nothing is raised.
\<close>

theorem champion_at_cap_rejected:
  assumes found: "findUnitInSelectedFaction unitName s = Some u"
    and champ: "utype u = Some ''Champion''"
    and atCap: "\<lfloor>real_of_int (pointsLimit s) / 250\<rfloor> \<le> countOf ''Champion'' (rosterEntries s)"
  shows "rosterEntries (addUnit_A unitName s) = rosterEntries s
    \<and> nextId (addUnit_A unitName s) = nextId s
    \<and> statusDot (addUnit_A unitName s) = ''var(--warn)''
    \<and> statusText (addUnit_A unitName s) =
        ''Champion cap reached ('' @ toString (getChampionCap (pointsLimit s)) @ '' max at ''
          @ toString (pointsLimit s) @ '' pts).''
    \<and> addUnit_A unitName s
        = s\<lparr> statusText := statusText (addUnit_A unitName s), statusDot := ''var(--warn)'' \<rparr>"
proof -
  from atCap have "getChampionCap (pointsLimit s) \<le> champions (computeForceComp_A s)"
    by (simp add: getChampionCap_floor comp_A_fields)
  with found champ show ?thesis
    by (simp add: addUnit_A_def Let_def setStatus_def)
qed

theorem champion_at_cap_rejected_witness:
  "findUnitInSelectedFaction ''Hero'' (loaded_A\<lparr>pointsLimit := 200\<rparr>)
     = Some \<lparr> uname = ''Hero'', upoints = 80, utype = Some ''Champion'' \<rparr>
   \<and> \<lfloor>real_of_int (pointsLimit (loaded_A\<lparr>pointsLimit := 200\<rparr>)) / 250\<rfloor> = 0
   \<and> countOf ''Champion'' (rosterEntries (loaded_A\<lparr>pointsLimit := 200\<rparr>)) = 0
   \<and> rosterEntries (addUnit_A ''Hero'' (loaded_A\<lparr>pointsLimit := 200\<rparr>)) = []
   \<and> nextId (addUnit_A ''Hero'' (loaded_A\<lparr>pointsLimit := 200\<rparr>)) = 1
   \<and> statusDot (addUnit_A ''Hero'' (loaded_A\<lparr>pointsLimit := 200\<rparr>)) = ''var(--warn)''
   \<and> statusText (addUnit_A ''Hero'' (loaded_A\<lparr>pointsLimit := 200\<rparr>))
       = ''Champion cap reached (0 max at 200 pts).''"
proof -
  let ?s = "loaded_A\<lparr>pointsLimit := 200\<rparr>"
  let ?u = "\<lparr> uname = ''Hero'', upoints = 80, utype = Some ''Champion'' \<rparr>"
  have found: "findUnitInSelectedFaction ''Hero'' ?s = Some ?u"
    by code_simp
  have champ: "utype ?u = Some ''Champion''"
    by simp
  have lim: "pointsLimit ?s = 200"
    by simp
  have cap: "\<lfloor>real_of_int (pointsLimit ?s) / 250\<rfloor> = 0"
    unfolding lim by simp
  have roster: "rosterEntries ?s = []"
    by (simp add: loaded_A_def init_A_def)
  have nxt: "nextId ?s = 1"
    by (simp add: loaded_A_def init_A_def)
  have cnt: "countOf ''Champion'' (rosterEntries ?s) = 0"
    unfolding roster by (simp add: countOf_def)
  have atCap: "\<lfloor>real_of_int (pointsLimit ?s) / 250\<rfloor> \<le> countOf ''Champion'' (rosterEntries ?s)"
    unfolding cap cnt by simp
  have capstr: "toString (getChampionCap 200) = ''0''"
    by code_simp
  have limstr: "toString 200 = ''200''"
    by code_simp
  from champion_at_cap_rejected [OF found champ atCap] found cap cnt show ?thesis
    unfolding roster nxt lim capstr limstr by simp
qed

lemma typeOrCore_falsy: "t = None \<or> t = Some [] \<Longrightarrow> typeOrCore t = ''Core''"
  by (auto simp: typeOrCore_def)

text \<open>
  C10. When the catalog unit has no type or an empty one, \<^verbatim>\<open>addUnit\<close> appends an
  entry of type Core, and the Core count of \<^verbatim>\<open>computeForceComp\<close> grows by one, in
  both variants.
\<close>

theorem falsy_type_counts_as_core:
  assumes found: "findUnitInSelectedFaction unitName s = Some u"
    and falsy: "utype u = None \<or> utype u = Some []"
  shows "rosterEntries (addUnit_A unitName s)
           = rosterEntries s @ [\<lparr> eid = nextId s, ename = uname u, epoints = upoints u, etype = ''Core'' \<rparr>]
    \<and> core (computeForceComp_A (addUnit_A unitName s)) = core (computeForceComp_A s) + 1
    \<and> rosterEntries (addUnit_B unitName s)
           = rosterEntries s @ [\<lparr> eid = nextId s, ename = uname u, epoints = upoints u, etype = ''Core'' \<rparr>]
    \<and> core_B (computeForceComp_B (addUnit_B unitName s)) = core_B (computeForceComp_B s) + 1"
proof -
  from falsy have notChamp: "utype u \<noteq> Some ''Champion''"
    by auto
  from falsy have t: "typeOrCore (utype u) = ''Core''"
    by (rule typeOrCore_falsy)
  have a: "rosterEntries (addUnit_A unitName s)
           = rosterEntries s @ [\<lparr> eid = nextId s, ename = uname u, epoints = upoints u, etype = ''Core'' \<rparr>]"
    using found notChamp t by (simp add: addUnit_A_def Let_def renderRoster_A_fields pushEntry_def)
  have b: "rosterEntries (addUnit_B unitName s)
           = rosterEntries s @ [\<lparr> eid = nextId s, ename = uname u, epoints = upoints u, etype = ''Core'' \<rparr>]"
    using found t by (simp add: addUnit_B_def renderRoster_B_fields pushEntry_def)
  show ?thesis
    unfolding comp_A_fields comp_B_fields a b by (simp add: countOf_def)
qed

theorem falsy_type_counts_as_core_witness:
  "findUnitInSelectedFaction ''Rabble'' loaded_A
     = Some \<lparr> uname = ''Rabble'', upoints = 20, utype = None \<rparr>
   \<and> rosterEntries (addUnit_A ''Rabble'' loaded_A)
       = [\<lparr> eid = 1, ename = ''Rabble'', epoints = 20, etype = ''Core'' \<rparr>]
   \<and> core (computeForceComp_A (addUnit_A ''Rabble'' loaded_A)) = 1
   \<and> rosterEntries (addUnit_B ''Rabble'' loaded_A)
       = [\<lparr> eid = 1, ename = ''Rabble'', epoints = 20, etype = ''Core'' \<rparr>]
   \<and> core_B (computeForceComp_B (addUnit_B ''Rabble'' loaded_A)) = 1"
proof -
  let ?u = "\<lparr> uname = ''Rabble'', upoints = 20, utype = None \<rparr>"
  have found: "findUnitInSelectedFaction ''Rabble'' loaded_A = Some ?u"
    by code_simp
  have falsy: "utype ?u = None \<or> utype ?u = Some []"
    by simp
  have roster: "rosterEntries loaded_A = []"
    by (simp add: loaded_A_def init_A_def)
  have nxt: "nextId loaded_A = 1"
    by (simp add: loaded_A_def init_A_def)
  have c0: "core (computeForceComp_A loaded_A) = 0" "core_B (computeForceComp_B loaded_A) = 0"
    unfolding comp_A_fields comp_B_fields roster by (simp_all add: countOf_def)
  from falsy_type_counts_as_core [OF found falsy] found show ?thesis
    unfolding roster nxt c0 by simp
qed

section \<open>Clearing\<close>

text \<open>
  C7. After \<^verbatim>\<open>clearRoster\<close> the roster is empty and the id counter is 1, as in the
  initial state, and the total, the composition and the status classification are those
  of the initial state, in both variants.
\<close>

theorem clearRoster_is_initial:
  "rosterEntries (clearRoster s) = [] \<and> nextId (clearRoster s) = 1
   \<and> rosterEntries (clearRoster s) = rosterEntries init_A
   \<and> nextId (clearRoster s) = nextId init_A
   \<and> getRosterTotal (clearRoster s) = getRosterTotal init_A
   \<and> computeForceComp_A (clearRoster s) = computeForceComp_A init_A
   \<and> renderRoster_status_A (getRosterTotal (clearRoster s)) (pointsLimit (clearRoster s))
        (compProblems_A (clearRoster s))
       = renderRoster_status_A (getRosterTotal init_A) (pointsLimit init_A) (compProblems_A init_A)
   \<and> statusText (renderRoster_A (clearRoster s)) = statusText (renderRoster_A init_A)
   \<and> statusDot (renderRoster_A (clearRoster s)) = statusDot (renderRoster_A init_A)
   \<and> rosterEntries (clearRoster s) = rosterEntries init_B
   \<and> nextId (clearRoster s) = nextId init_B
   \<and> getRosterTotal (clearRoster s) = getRosterTotal init_B
   \<and> computeForceComp_B (clearRoster s) = computeForceComp_B init_B
   \<and> renderRoster_status_B (getRosterTotal (clearRoster s)) (pointsLimit (clearRoster s))
        (compProblems_B (clearRoster s))
       = renderRoster_status_B (getRosterTotal init_B) (pointsLimit init_B) (compProblems_B init_B)
   \<and> statusText (renderRoster_B (clearRoster s)) = statusText (renderRoster_B init_B)
   \<and> statusDot (renderRoster_B (clearRoster s)) = statusDot (renderRoster_B init_B)"
proof -
  have r: "rosterEntries (clearRoster s) = []" "nextId (clearRoster s) = 1"
    "rosterEntries init_A = []" "nextId init_A = 1" "rosterEntries init_B = []" "nextId init_B = 1"
    by (simp_all add: clearRoster_def init_A_def init_B_def)
  have t: "getRosterTotal (clearRoster s) = 0" "getRosterTotal init_A = 0" "getRosterTotal init_B = 0"
    by (simp_all add: getRosterTotal_def r)
  have c: "computeForceComp_A (clearRoster s) = computeForceComp_A init_A"
    "computeForceComp_B (clearRoster s) = computeForceComp_B init_B"
    by (simp_all add: computeForceComp_A_def computeForceComp_B_def r)
  have st: "renderRoster_status_A 0 l ps = (''Ready.'', ''ok'')"
    "renderRoster_status_B 0 l ps = (''Ready.'', ''ok'')" for l ps
    by (simp_all add: renderRoster_status_A_def renderRoster_status_B_def)
  have rr: "statusText (renderRoster_A (clearRoster s)) = statusText (renderRoster_A init_A)"
    "statusDot (renderRoster_A (clearRoster s)) = statusDot (renderRoster_A init_A)"
    "statusText (renderRoster_B (clearRoster s)) = statusText (renderRoster_B init_B)"
    "statusDot (renderRoster_B (clearRoster s)) = statusDot (renderRoster_B init_B)"
    by (simp_all add: renderRoster_A_def renderRoster_B_def t st setStatus_def)
  show ?thesis
    unfolding t st by (simp add: r c rr)
qed

section \<open>Status classification\<close>

lemma digitChar_digit: "digitChar d \<in> set ''0123456789''"
  unfolding digitChar_def by (rule nth_mem) simp

lemma digits_head: "\<exists>d ds. digits n = d # ds \<and> d \<in> set ''0123456789''"
proof (induction n rule: digits.induct)
  case (1 n)
  show ?case
  proof (cases "n < 10")
    case True
    then have "digits n = [digitChar n]"
      by (subst digits.simps) simp
    with digitChar_digit [of n] show ?thesis
      by blast
  next
    case False
    with "1.IH" obtain d ds where "digits (n div 10) = d # ds" "d \<in> set ''0123456789''"
      by blast
    moreover from False have "digits n = digits (n div 10) @ [digitChar (n mod 10)]"
      by (subst digits.simps) simp
    ultimately have "digits n = d # (ds @ [digitChar (n mod 10)])"
      by simp
    with \<open>d \<in> set ''0123456789''\<close> show ?thesis
      by blast
  qed
qed

lemma toString_not_Ready: "0 \<le> i \<Longrightarrow> toString i @ rest \<noteq> ''Ready.''"
proof -
  assume "0 \<le> i"
  then have "toString i = digits (nat i)"
    by (simp add: toString_def)
  with digits_head [of "nat i"] obtain d ds where "toString i = d # ds" "d \<in> set ''0123456789''"
    by auto
  then show ?thesis
    by auto
qed

lemma status_A_Ready_iff:
  "(renderRoster_status_A tot limit ps = (''Ready.'', ''ok'')) = (tot = 0)"
  by (simp add: renderRoster_status_A_def Let_def toString_not_Ready)

lemma status_B_Ready_iff:
  "(renderRoster_status_B tot limit ps = (''Ready.'', ''ok'')) = (tot = 0)"
  by (simp add: renderRoster_status_B_def Let_def toString_not_Ready)

lemma status_type:
  "snd (renderRoster_status_A tot limit ps) \<in> {''ok'', ''warn'', ''danger''}"
  "snd (renderRoster_status_B tot limit ps) \<in> {''ok'', ''warn'', ''danger''}"
  by (simp_all add: renderRoster_status_A_def renderRoster_status_B_def Let_def)

lemma renderRoster_A_status:
  "statusText (renderRoster_A s)
     = fst (renderRoster_status_A (getRosterTotal s) (pointsLimit s) (compProblems_A s))"
  "statusDot (renderRoster_A s)
     = (let t = snd (renderRoster_status_A (getRosterTotal s) (pointsLimit s) (compProblems_A s))
        in if t = ''danger'' then ''var(--danger)''
           else if t = ''warn'' then ''var(--warn)'' else ''var(--ok)'')"
  by (simp_all add: renderRoster_A_def Let_def setStatus_def split: prod.splits)

lemma renderRoster_B_status:
  "statusText (renderRoster_B s)
     = fst (renderRoster_status_B (getRosterTotal s) (pointsLimit s) (compProblems_B s))"
  "statusDot (renderRoster_B s)
     = (let t = snd (renderRoster_status_B (getRosterTotal s) (pointsLimit s) (compProblems_B s))
        in if t = ''danger'' then ''var(--danger)''
           else if t = ''warn'' then ''var(--warn)'' else ''var(--ok)'')"
  by (simp_all add: renderRoster_B_def Let_def setStatus_def split: prod.splits)

lemma shown_A_Ready_iff:
  "(statusText (renderRoster_A s) = ''Ready.'' \<and> statusDot (renderRoster_A s) = ''var(--ok)'')
     = (getRosterTotal s = 0)"
  unfolding renderRoster_A_status
  by (simp add: renderRoster_status_A_def Let_def toString_not_Ready)

lemma shown_B_Ready_iff:
  "(statusText (renderRoster_B s) = ''Ready.'' \<and> statusDot (renderRoster_B s) = ''var(--ok)'')
     = (getRosterTotal s = 0)"
  unfolding renderRoster_B_status
  by (simp add: renderRoster_status_B_def Let_def toString_not_Ready)

text \<open>
  C3. The status is the message "Ready." with type ok exactly when the total of the
  roster is 0, whatever the limit and the composition problems: for the classification
  as a function of total, limit and problems, and for what \<^verbatim>\<open>renderRoster\<close> shows.
\<close>

theorem ready_iff_total_zero:
  "(renderRoster_status_A tot limit ps = (''Ready.'', ''ok'')) = (tot = 0)
   \<and> (renderRoster_status_B tot limit ps = (''Ready.'', ''ok'')) = (tot = 0)
   \<and> (statusText (renderRoster_A s) = ''Ready.'' \<and> statusDot (renderRoster_A s) = ''var(--ok)'')
       = (getRosterTotal s = 0)
   \<and> (statusText (renderRoster_B s) = ''Ready.'' \<and> statusDot (renderRoster_B s) = ''var(--ok)'')
       = (getRosterTotal s = 0)"
  using status_A_Ready_iff status_B_Ready_iff shown_A_Ready_iff shown_B_Ready_iff by blast

text \<open>
  C2. The claim gives the message "Legal: exact points and legal composition." for a
  non-zero total equal to the limit with no problems, and "<remaining> pts remaining.
  Legal so far." below the limit. Both variants say "legal force composition" in the
  first, and variant B says "Force composition legal so far." in the second.
\<close>

theorem status_table_counterexample:
  "renderRoster_status_A 300 300 [] \<noteq> (''Legal: exact points and legal composition.'', ''ok'')
   \<and> renderRoster_status_B 200 200 [] \<noteq> (''Legal: exact points and legal composition.'', ''ok'')
   \<and> renderRoster_status_B 150 200 [] \<noteq> (''50 pts remaining. Legal so far.'', ''ok'')"
  by code_simp

text \<open>
  C2, amended. The classification follows the six rows of the decision table, with the
  messages of the code: on the exact limit "Legal: exact points and legal force
  composition."; below the limit the remaining points and "Legal so far." in variant A,
  "Force composition legal so far." in variant B; the remaining points are
  \<open>limit - tot\<close> and the excess is \<open>tot - limit\<close>.
\<close>

theorem status_table:
  "(tot = 0 \<longrightarrow> renderRoster_status_A tot limit ps = (''Ready.'', ''ok''))
   \<and> (tot \<noteq> 0 \<and> tot \<le> limit \<and> ps = [] \<and> tot = limit \<longrightarrow>
        renderRoster_status_A tot limit ps
          = (''Legal: exact points and legal force composition.'', ''ok''))
   \<and> (tot \<noteq> 0 \<and> tot \<le> limit \<and> ps = [] \<and> tot \<noteq> limit \<longrightarrow>
        renderRoster_status_A tot limit ps
          = (toString (limit - tot) @ '' pts remaining. Legal so far.'', ''ok''))
   \<and> (tot \<noteq> 0 \<and> tot \<le> limit \<and> ps \<noteq> [] \<longrightarrow>
        renderRoster_status_A tot limit ps
          = (toString (limit - tot) @ '' pts remaining. '' @ join '' '' ps, ''warn''))
   \<and> (tot \<noteq> 0 \<and> \<not> tot \<le> limit \<and> ps = [] \<longrightarrow>
        renderRoster_status_A tot limit ps
          = (''Over by '' @ toString (tot - limit) @ '' pts.'', ''danger''))
   \<and> (tot \<noteq> 0 \<and> \<not> tot \<le> limit \<and> ps \<noteq> [] \<longrightarrow>
        renderRoster_status_A tot limit ps
          = (''Over by '' @ toString (tot - limit) @ '' pts. '' @ join '' '' ps, ''danger''))
   \<and> (tot = 0 \<longrightarrow> renderRoster_status_B tot limit ps = (''Ready.'', ''ok''))
   \<and> (tot \<noteq> 0 \<and> tot \<le> limit \<and> ps = [] \<and> tot = limit \<longrightarrow>
        renderRoster_status_B tot limit ps
          = (''Legal: exact points and legal force composition.'', ''ok''))
   \<and> (tot \<noteq> 0 \<and> tot \<le> limit \<and> ps = [] \<and> tot \<noteq> limit \<longrightarrow>
        renderRoster_status_B tot limit ps
          = (toString (limit - tot) @ '' pts remaining. Force composition legal so far.'', ''ok''))
   \<and> (tot \<noteq> 0 \<and> tot \<le> limit \<and> ps \<noteq> [] \<longrightarrow>
        renderRoster_status_B tot limit ps
          = (toString (limit - tot) @ '' pts remaining. '' @ join '' '' ps, ''warn''))
   \<and> (tot \<noteq> 0 \<and> \<not> tot \<le> limit \<and> ps = [] \<longrightarrow>
        renderRoster_status_B tot limit ps
          = (''Over by '' @ toString (tot - limit) @ '' pts.'', ''danger''))
   \<and> (tot \<noteq> 0 \<and> \<not> tot \<le> limit \<and> ps \<noteq> [] \<longrightarrow>
        renderRoster_status_B tot limit ps
          = (''Over by '' @ toString (tot - limit) @ '' pts. '' @ join '' '' ps, ''danger''))"
  by (simp add: renderRoster_status_A_def renderRoster_status_B_def Let_def max_def)

theorem status_table_witness:
  "renderRoster_status_A 0 300 [''p''] = (''Ready.'', ''ok'')
   \<and> renderRoster_status_A 300 300 [] = (''Legal: exact points and legal force composition.'', ''ok'')
   \<and> renderRoster_status_A 23 300 [] = (''277 pts remaining. Legal so far.'', ''ok'')
   \<and> renderRoster_status_A 23 300 [''p'', ''q''] = (''277 pts remaining. p q'', ''warn'')
   \<and> renderRoster_status_A 310 300 [] = (''Over by 10 pts.'', ''danger'')
   \<and> renderRoster_status_A 310 300 [''p'', ''q''] = (''Over by 10 pts. p q'', ''danger'')
   \<and> renderRoster_status_B 0 200 [''p''] = (''Ready.'', ''ok'')
   \<and> renderRoster_status_B 200 200 [] = (''Legal: exact points and legal force composition.'', ''ok'')
   \<and> renderRoster_status_B 150 200 [] = (''50 pts remaining. Force composition legal so far.'', ''ok'')
   \<and> renderRoster_status_B 150 200 [''p'', ''q''] = (''50 pts remaining. p q'', ''warn'')
   \<and> renderRoster_status_B 210 200 [] = (''Over by 10 pts.'', ''danger'')
   \<and> renderRoster_status_B 210 200 [''p'', ''q''] = (''Over by 10 pts. p q'', ''danger'')"
proof -
  have n: "toString 277 = ''277''" "toString 10 = ''10''" "toString 50 = ''50''"
    by code_simp+
  have d: "(300::int) - 23 = 277" "(310::int) - 300 = 10" "(200::int) - 150 = 50"
    "(210::int) - 200 = 10"
    by simp_all
  from status_table [of 0 300 "[''p'']"] status_table [of 300 300 "[]"]
    status_table [of 23 300 "[]"] status_table [of 23 300 "[''p'', ''q'']"]
    status_table [of 310 300 "[]"] status_table [of 310 300 "[''p'', ''q'']"]
    status_table [of 0 200 "[''p'']"] status_table [of 200 200 "[]"]
    status_table [of 150 200 "[]"] status_table [of 150 200 "[''p'', ''q'']"]
    status_table [of 210 200 "[]"] status_table [of 210 200 "[''p'', ''q'']"]
  show ?thesis
    unfolding d n by simp
qed

section \<open>Display order and export text\<close>

lemma typeRank_A_eq:
  "typeRank_A t = (if t = ''Leader'' then 0 else if t = ''Core'' then 1
                   else if t = ''Special'' then 2 else if t = ''Champion'' then 3 else 999)"
  by (simp add: typeRank_A_def TYPE_ORDER_MAP_A_def TYPE_ORDER_A_def)

lemma typeRank_B_eq:
  "typeRank_B t = (if t = ''Leader'' then 0 else if t = ''Core'' then 1
                   else if t = ''Special'' then 2 else if t = ''Elite'' then 3 else 999)"
  by (simp add: typeRank_B_def TYPE_ORDER_MAP_B_def TYPE_ORDER_B_def)

lemma compareEntries_A_le:
  "(compareEntries_A a b \<le> 0) =
     (typeRank_A (etype a) < typeRank_A (etype b)
      \<or> typeRank_A (etype a) = typeRank_A (etype b) \<and> eid a \<le> eid b)"
  by (auto simp: compareEntries_A_def Let_def)

lemma compareEntries_B_le:
  "(compareEntries_B a b \<le> 0) =
     (typeRank_B (etype a) < typeRank_B (etype b)
      \<or> typeRank_B (etype a) = typeRank_B (etype b) \<and> eid a \<le> eid b)"
  by (auto simp: compareEntries_B_def Let_def)

lemma set_insertSorted: "set (insertSorted cmp x ys) = insert x (set ys)"
  by (induction ys) auto

lemma set_sortWith: "set (sortWith cmp xs) = set xs"
  by (induction xs) (simp_all add: set_insertSorted)

lemma mset_insertSorted: "mset (insertSorted cmp x ys) = add_mset x (mset ys)"
  by (induction ys) simp_all

lemma mset_sortWith: "mset (sortWith cmp xs) = mset xs"
  by (induction xs) (simp_all add: mset_insertSorted)

lemma sorted_insertSorted:
  assumes tot: "\<And>a b. cmp a b \<le> 0 \<or> cmp b a \<le> 0"
    and tr: "\<And>a b c. cmp a b \<le> 0 \<Longrightarrow> cmp b c \<le> 0 \<Longrightarrow> cmp a c \<le> 0"
  shows "sorted_wrt (\<lambda>a b. cmp a b \<le> 0) ys \<Longrightarrow>
         sorted_wrt (\<lambda>a b. cmp a b \<le> 0) (insertSorted cmp x ys)"
proof (induction ys)
  case Nil
  show ?case by simp
next
  case (Cons y ys)
  show ?case
  proof (cases "cmp x y \<le> 0")
    case True
    with Cons.prems tr have "\<forall>z\<in>set (y # ys). cmp x z \<le> 0"
      by auto
    with True Cons.prems show ?thesis
      by simp
  next
    case False
    with tot [of x y] have "cmp y x \<le> 0"
      by simp
    with False Cons show ?thesis
      by (simp add: set_insertSorted)
  qed
qed

lemma sorted_sortWith:
  assumes tot: "\<And>a b. cmp a b \<le> 0 \<or> cmp b a \<le> 0"
    and tr: "\<And>a b c. cmp a b \<le> 0 \<Longrightarrow> cmp b c \<le> 0 \<Longrightarrow> cmp a c \<le> 0"
  shows "sorted_wrt (\<lambda>a b. cmp a b \<le> 0) (sortWith cmp xs)"
  by (induction xs) (simp_all add: sorted_insertSorted [OF tot tr])

lemma sorted_ordered_A:
  "sorted_wrt (\<lambda>a b. typeRank_A (etype a) < typeRank_A (etype b)
        \<or> typeRank_A (etype a) = typeRank_A (etype b) \<and> eid a \<le> eid b) (ordered_A s)"
proof -
  have "sorted_wrt (\<lambda>a b. compareEntries_A a b \<le> 0) (sortWith compareEntries_A (rosterEntries s))"
    by (rule sorted_sortWith) (auto simp: compareEntries_A_le)
  then show ?thesis
    by (simp add: ordered_A_def compareEntries_A_le)
qed

lemma sorted_ordered_B:
  "sorted_wrt (\<lambda>a b. typeRank_B (etype a) < typeRank_B (etype b)
        \<or> typeRank_B (etype a) = typeRank_B (etype b) \<and> eid a \<le> eid b) (ordered_B s)"
proof -
  have "sorted_wrt (\<lambda>a b. compareEntries_B a b \<le> 0) (sortWith compareEntries_B (rosterEntries s))"
    by (rule sorted_sortWith) (auto simp: compareEntries_B_le)
  then show ?thesis
    by (simp add: ordered_B_def compareEntries_B_le)
qed

text \<open>Stability: the sort keeps the order of the entries that satisfy \<open>P\<close>.\<close>

lemma filter_insertSorted:
  "(\<And>y. y \<in> set ys \<Longrightarrow> P x \<Longrightarrow> P y \<Longrightarrow> cmp x y \<le> 0) \<Longrightarrow>
   filter P (insertSorted cmp x ys) = (if P x then x # filter P ys else filter P ys)"
proof (induction ys)
  case Nil
  show ?case by simp
next
  case (Cons y ys)
  have IH: "filter P (insertSorted cmp x ys) = (if P x then x # filter P ys else filter P ys)"
    by (rule Cons.IH) (simp add: Cons.prems)
  show ?case
  proof (cases "cmp x y \<le> 0")
    case True
    then show ?thesis by simp
  next
    case False
    with Cons.prems [of y] have "\<not> (P x \<and> P y)"
      by auto
    with False IH show ?thesis
      by auto
  qed
qed

lemma filter_sortWith:
  assumes "sorted_wrt (\<lambda>a b. P a \<longrightarrow> P b \<longrightarrow> cmp a b \<le> 0) xs"
  shows "filter P (sortWith cmp xs) = filter P xs"
  using assms
proof (induction xs)
  case Nil
  show ?case by simp
next
  case (Cons x xs)
  then have "filter P (insertSorted cmp x (sortWith cmp xs))
      = (if P x then x # filter P (sortWith cmp xs) else filter P (sortWith cmp xs))"
    by (intro filter_insertSorted) (simp add: set_sortWith)
  with Cons show ?case
    by simp
qed

text \<open>Ids grow along the roster and stay below the id counter.\<close>

lemma ids_pushEntry:
  "sorted_wrt (<) (map eid (rosterEntries s) @ [nextId s]) \<Longrightarrow>
   sorted_wrt (<) (map eid (rosterEntries (pushEntry u s)) @ [nextId (pushEntry u s)])"
  by (auto simp: pushEntry_def sorted_wrt_append)

lemma ids_filter:
  "sorted_wrt (<) (map eid es @ [n]) \<Longrightarrow> sorted_wrt (<) (map eid (filter Q es) @ [n::int])"
  by (induction es) (auto simp: sorted_wrt_append)

lemma ids_step_A:
  "sorted_wrt (<) (map eid (rosterEntries s) @ [nextId s]) \<Longrightarrow>
   sorted_wrt (<) (map eid (rosterEntries (step_A a s)) @ [nextId (step_A a s)])"
proof (cases a)
  case (AddUnit n)
  assume inv: "sorted_wrt (<) (map eid (rosterEntries s) @ [nextId s])"
  show ?thesis
  proof (cases "findUnitInSelectedFaction n s")
    case None
    with AddUnit inv show ?thesis
      by (simp add: addUnit_A_def)
  next
    case (Some u)
    with AddUnit inv ids_pushEntry [OF inv, of u] show ?thesis
      by (simp add: addUnit_A_def Let_def renderRoster_A_fields setStatus_fields)
  qed
next
  case (DeleteEntry i)
  assume "sorted_wrt (<) (map eid (rosterEntries s) @ [nextId s])"
  with DeleteEntry show ?thesis
    by (simp add: deleteEntry_A_def renderRoster_A_fields ids_filter)
next
  case ClearRoster
  then show ?thesis
    by (simp add: clearRoster_def)
qed

lemma ids_step_B:
  "sorted_wrt (<) (map eid (rosterEntries s) @ [nextId s]) \<Longrightarrow>
   sorted_wrt (<) (map eid (rosterEntries (step_B a s)) @ [nextId (step_B a s)])"
proof (cases a)
  case (AddUnit n)
  assume inv: "sorted_wrt (<) (map eid (rosterEntries s) @ [nextId s])"
  show ?thesis
  proof (cases "findUnitInSelectedFaction n s")
    case None
    with AddUnit inv show ?thesis
      by (simp add: addUnit_B_def)
  next
    case (Some u)
    with AddUnit inv ids_pushEntry [OF inv, of u] show ?thesis
      by (simp add: addUnit_B_def renderRoster_B_fields)
  qed
next
  case (DeleteEntry i)
  assume "sorted_wrt (<) (map eid (rosterEntries s) @ [nextId s])"
  with DeleteEntry show ?thesis
    by (simp add: deleteEntry_B_def renderRoster_B_fields ids_filter)
next
  case ClearRoster
  then show ?thesis
    by (simp add: clearRoster_def)
qed

lemma ids_run_A:
  "sorted_wrt (<) (map eid (rosterEntries s) @ [nextId s]) \<Longrightarrow>
   sorted_wrt (<) (map eid (rosterEntries (run_A acts s)) @ [nextId (run_A acts s)])"
  by (induction acts arbitrary: s) (simp_all add: ids_step_A)

lemma ids_run_B:
  "sorted_wrt (<) (map eid (rosterEntries s) @ [nextId s]) \<Longrightarrow>
   sorted_wrt (<) (map eid (rosterEntries (run_B acts s)) @ [nextId (run_B acts s)])"
  by (induction acts arbitrary: s) (simp_all add: ids_step_B)

lemma ids_ascending_after_clear:
  "sorted_wrt (\<lambda>a b. eid a < eid b) (rosterEntries (run_A acts (clearRoster s)))"
  "sorted_wrt (\<lambda>a b. eid a < eid b) (rosterEntries (run_B acts (clearRoster s)))"
proof -
  have c: "sorted_wrt (<) (map eid (rosterEntries (clearRoster s)) @ [nextId (clearRoster s)])"
    by (simp add: clearRoster_def)
  from ids_run_A [OF c, of acts]
  show "sorted_wrt (\<lambda>a b. eid a < eid b) (rosterEntries (run_A acts (clearRoster s)))"
    by (simp add: sorted_wrt_append sorted_wrt_map)
  from ids_run_B [OF c, of acts]
  show "sorted_wrt (\<lambda>a b. eid a < eid b) (rosterEntries (run_B acts (clearRoster s)))"
    by (simp add: sorted_wrt_append sorted_wrt_map)
qed

lemma same_rank_in_roster_order_A:
  assumes "sorted_wrt (\<lambda>a b. eid a < eid b) (rosterEntries s)"
  shows "filter (\<lambda>e. typeRank_A (etype e) = r) (ordered_A s)
       = filter (\<lambda>e. typeRank_A (etype e) = r) (rosterEntries s)"
  unfolding ordered_A_def
proof (rule filter_sortWith)
  from assms show "sorted_wrt (\<lambda>a b. typeRank_A (etype a) = r \<longrightarrow> typeRank_A (etype b) = r
        \<longrightarrow> compareEntries_A a b \<le> 0) (rosterEntries s)"
    by (rule sorted_wrt_mono_rel [rotated]) (simp add: compareEntries_A_le)
qed

lemma same_rank_in_roster_order_B:
  assumes "sorted_wrt (\<lambda>a b. eid a < eid b) (rosterEntries s)"
  shows "filter (\<lambda>e. typeRank_B (etype e) = r) (ordered_B s)
       = filter (\<lambda>e. typeRank_B (etype e) = r) (rosterEntries s)"
  unfolding ordered_B_def
proof (rule filter_sortWith)
  from assms show "sorted_wrt (\<lambda>a b. typeRank_B (etype a) = r \<longrightarrow> typeRank_B (etype b) = r
        \<longrightarrow> compareEntries_B a b \<le> 0) (rosterEntries s)"
    by (rule sorted_wrt_mono_rel [rotated]) (simp add: compareEntries_B_le)
qed

lemma pushEntryLines_eq:
  "pushEntryLines es k lines = lines @ map (\<lambda>(i, it). entryLine i it) (enumerate k es)"
  by (induction es arbitrary: k lines) simp_all

lemma rosterLines_A_eq:
  "rosterLines_A s = headerLines_A s @
     (if rosterEntries s = [] then [''(No units)'']
      else map (\<lambda>(i, it). entryLine i it) (enumerate 0 (ordered_A s)))"
proof -
  have "(ordered_A s = []) = (rosterEntries s = [])"
    using mset_sortWith [of compareEntries_A "rosterEntries s"]
    by (metis ordered_A_def mset_zero_iff)
  then show ?thesis
    by (simp add: rosterLines_A_def Let_def pushEntryLines_eq)
qed

lemma rosterLines_B_eq:
  "rosterLines_B s = headerLines_B s @
     (if rosterEntries s = [] then [''(No units)'']
      else map (\<lambda>(i, it). entryLine i it) (enumerate 0 (ordered_B s)))"
proof -
  have "(ordered_B s = []) = (rosterEntries s = [])"
    using mset_sortWith [of compareEntries_B "rosterEntries s"]
    by (metis ordered_B_def mset_zero_iff)
  then show ?thesis
    by (simp add: rosterLines_B_def Let_def pushEntryLines_eq)
qed

lemma clipboard_A: "clipboard (copyRosterToClipboard_A apiOk s) = join [CHR 0x0A] (rosterLines_A s)"
  by (simp add: copyRosterToClipboard_A_def Let_def setStatus_def)

lemma clipboard_B: "clipboard (copyRosterToClipboard_B apiOk s) = join [CHR 0x0A] (rosterLines_B s)"
  by (simp add: copyRosterToClipboard_B_def Let_def setStatus_def)

text \<open>
  C9. The exported text lists every entry of the roster exactly once: after the header
  come the lines of the entries of \<^verbatim>\<open>ordered\<close>, one each, numbered from 1, and
  \<^verbatim>\<open>ordered\<close> is a permutation of the roster sorted by type rank (Leader 0, Core 1,
  Special 2, the fourth type 3, any other type 999) and, within a rank, by ascending id.
  In every state reached from a cleared roster, ascending id is insertion order: the
  entries of each rank appear as they stand in the roster. The clipboard receives these
  lines joined by line feeds.
\<close>

theorem export_in_display_order:
  "mset (ordered_A s) = mset (rosterEntries s)
   \<and> sorted_wrt (\<lambda>a b. typeRank_A (etype a) < typeRank_A (etype b)
        \<or> typeRank_A (etype a) = typeRank_A (etype b) \<and> eid a \<le> eid b) (ordered_A s)
   \<and> typeRank_A t = (if t = ''Leader'' then 0 else if t = ''Core'' then 1
        else if t = ''Special'' then 2 else if t = ''Champion'' then 3 else 999)
   \<and> filter (\<lambda>e. typeRank_A (etype e) = r) (ordered_A (run_A acts (clearRoster s)))
       = filter (\<lambda>e. typeRank_A (etype e) = r) (rosterEntries (run_A acts (clearRoster s)))
   \<and> rosterLines_A s = headerLines_A s @
        (if rosterEntries s = [] then [''(No units)'']
         else map (\<lambda>(i, it). entryLine i it) (enumerate 0 (ordered_A s)))
   \<and> clipboard (copyRosterToClipboard_A apiOk s) = join [CHR 0x0A] (rosterLines_A s)
   \<and> mset (ordered_B s) = mset (rosterEntries s)
   \<and> sorted_wrt (\<lambda>a b. typeRank_B (etype a) < typeRank_B (etype b)
        \<or> typeRank_B (etype a) = typeRank_B (etype b) \<and> eid a \<le> eid b) (ordered_B s)
   \<and> typeRank_B t = (if t = ''Leader'' then 0 else if t = ''Core'' then 1
        else if t = ''Special'' then 2 else if t = ''Elite'' then 3 else 999)
   \<and> filter (\<lambda>e. typeRank_B (etype e) = r) (ordered_B (run_B acts (clearRoster s)))
       = filter (\<lambda>e. typeRank_B (etype e) = r) (rosterEntries (run_B acts (clearRoster s)))
   \<and> rosterLines_B s = headerLines_B s @
        (if rosterEntries s = [] then [''(No units)'']
         else map (\<lambda>(i, it). entryLine i it) (enumerate 0 (ordered_B s)))
   \<and> clipboard (copyRosterToClipboard_B apiOk s) = join [CHR 0x0A] (rosterLines_B s)"
proof -
  have pa: "mset (ordered_A s) = mset (rosterEntries s)"
    and pb: "mset (ordered_B s) = mset (rosterEntries s)"
    by (simp_all add: ordered_A_def ordered_B_def mset_sortWith)
  note ra = same_rank_in_roster_order_A [OF ids_ascending_after_clear(1), of r acts s]
  note rb = same_rank_in_roster_order_B [OF ids_ascending_after_clear(2), of r acts s]
  from pa pb sorted_ordered_A [of s] sorted_ordered_B [of s] typeRank_A_eq [of t]
    typeRank_B_eq [of t] ra rb rosterLines_A_eq [of s] rosterLines_B_eq [of s]
    clipboard_A [of apiOk s] clipboard_B [of apiOk s]
  show ?thesis
    by blast
qed

text \<open>An export: four units added in the order Ogre, Rabble, Warlord, Rabble.\<close>

lemma export_example:
  "drop 7 (rosterLines_A
      (run_A [AddUnit ''Ogre'', AddUnit ''Rabble'', AddUnit ''Warlord'', AddUnit ''Rabble'']
         loaded_A))
   = [''1. [Leader] Warlord '' @ emdash @ '' 60'',
      ''2. [Core] Rabble '' @ emdash @ '' 20'',
      ''3. [Core] Rabble '' @ emdash @ '' 20'',
      ''4. [Monster] Ogre '' @ emdash @ '' 50'']"
  by code_simp

end
